theory Spec2Isabelle
  imports Main "HOL-Library.Sublist" "HOL-Library.Multiset"
begin

section \<open>Data model (shared/schema.ts)\<close>

text \<open>
  The tables \<^verbatim>\<open>programs\<close>, \<^verbatim>\<open>clients\<close> and \<^verbatim>\<open>enrollments\<close> of the schema, one record
  per row type.  A \<^verbatim>\<open>serial\<close> id is a natural number (the sequence starts at 1), a
  \<^verbatim>\<open>text\<close> column is a string, a nullable column is an option, a timestamp is a
  number of milliseconds.  Field names carry a prefix because record selectors
  are global.
\<close>

type_synonym timestamp = nat

record program =
  p_id :: nat
  p_name :: string
  p_code :: string
  p_description :: string
  p_requiredInfo :: "string list option"

record client =
  c_id :: nat
  c_clientId :: string
  c_name :: string
  c_dob :: string
  c_gender :: string
  c_phone :: string
  c_address :: string
  c_email :: "string option"
  c_emergencyContact :: string
  c_status :: string
  c_createdAt :: "timestamp option"

record enrollment =
  e_id :: nat
  e_clientId :: nat
  e_programId :: nat
  e_enrollDate :: timestamp
  e_notes :: "string option"
  e_status :: string
  e_symptomSeverity :: "string option"
  e_riskLevel :: "string option"
  e_followUpRequired :: "bool option"

text \<open>
  The insert types: \<^verbatim>\<open>InsertProgram\<close>, \<^verbatim>\<open>InsertClient\<close> (clientId optional) and the
  output type of \<^verbatim>\<open>createEnrollmentSchema\<close> of the POST /api/enrollments route.  An
  optional field is an option; \<open>None\<close> is \<^verbatim>\<open>undefined\<close>.
\<close>

record insert_program =
  ip_name :: string
  ip_code :: string
  ip_description :: string
  ip_requiredInfo :: "string list option"

record insert_client =
  ic_clientId :: "string option"
  ic_name :: string
  ic_dob :: string
  ic_gender :: string
  ic_phone :: string
  ic_address :: string
  ic_email :: "string option"
  ic_emergencyContact :: string
  ic_status :: "string option"

text \<open>
  A JavaScript number as a request carries it (\<^verbatim>\<open>z.number()\<close>, \<^verbatim>\<open>parseInt\<close>): an
  integer, which the driver sends as its decimal digits, or a number that the
  driver does not send as decimal digits alone (one with a fraction, an
  infinite one, or one so large that JavaScript writes it with an exponent),
  which is kept as the text the driver sends for it.
\<close>

datatype js_number = JsInt int | JsNonInt string

record insert_enrollment =
  ie_clientId :: js_number
  ie_programId :: js_number
  ie_enrollDate :: timestamp
  ie_notes :: "string option"
  ie_status :: "string option"
  ie_symptomSeverity :: "string option"
  ie_riskLevel :: "string option"
  ie_followUpRequired :: "bool option"

text \<open>
  The database: the rows of each table in physical order and the last value
  each \<^verbatim>\<open>serial\<close> sequence has issued.
\<close>

record db =
  programs :: "program list"
  clients :: "client list"
  enrollments :: "enrollment list"
  programs_seq :: nat
  clients_seq :: nat
  enrollments_seq :: nat

text \<open>
  What the database raises: on a rejected insert a unique or foreign key
  violation, and on a parameter it cannot take for an \<^verbatim>\<open>integer\<close> or \<^verbatim>\<open>text\<close> column
  an out-of-range, invalid-integer or invalid-byte error.  The message is the
  one PostgreSQL gives the driver; it is what \<^verbatim>\<open>error.message\<close> reads in the routes.
\<close>

datatype db_error =
  UniqueViolation string
  | ForeignKeyViolation string string
  | OutOfRange string
  | InvalidInteger string
  | InvalidByteSequence

definition dquote :: string where
  "dquote = [CHR 0x22]"

fun error_message :: "db_error \<Rightarrow> string" where
  "error_message (UniqueViolation c) =
     ''duplicate key value violates unique constraint '' @ dquote @ c @ dquote"
| "error_message (ForeignKeyViolation t c) =
     ''insert or update on table '' @ dquote @ t @ dquote @
     '' violates foreign key constraint '' @ dquote @ c @ dquote"
| "error_message (OutOfRange v) =
     ''value '' @ dquote @ v @ dquote @ '' is out of range for type integer''"
| "error_message (InvalidInteger v) =
     ''invalid input syntax for type integer: '' @ dquote @ v @ dquote"
| "error_message InvalidByteSequence =
     ''invalid byte sequence for encoding '' @ dquote @ ''UTF8'' @ dquote @ '': 0x00''"

section \<open>JavaScript string helpers\<close>

text \<open>\<^verbatim>\<open>s.includes(sub)\<close>: \<open>sub\<close> occurs in \<open>s\<close> as a contiguous run.\<close>

fun starts_with :: "string \<Rightarrow> string \<Rightarrow> bool" where
  "starts_with s [] = True"
| "starts_with [] (y # ys) = False"
| "starts_with (x # xs) (y # ys) = (x = y \<and> starts_with xs ys)"

fun str_includes :: "string \<Rightarrow> string \<Rightarrow> bool" where
  "str_includes [] sub = (sub = [])"
| "str_includes (x # xs) sub = (starts_with (x # xs) sub \<or> str_includes xs sub)"

text \<open>\<^verbatim>\<open>String(n)\<close> for a non-negative integer: its decimal digits.\<close>

definition digit_char :: "nat \<Rightarrow> char" where
  "digit_char d = char_of (48 + d)"

fun String_of_nat :: "nat \<Rightarrow> string" where
  "String_of_nat n =
     (if n < 10 then [digit_char n]
      else String_of_nat (n div 10) @ [digit_char (n mod 10)])"

declare String_of_nat.simps [simp del]

text \<open>\<^verbatim>\<open>String(i)\<close> for an integer: a minus sign when negative, and the decimal digits.\<close>

definition String_of_int :: "int \<Rightarrow> string" where
  "String_of_int i = (if i < 0 then ''-'' @ String_of_nat (nat (- i)) else String_of_nat (nat i))"

text \<open>\<^verbatim>\<open>s.padStart(n, c)\<close> with a one-character pad string.\<close>

definition padStart :: "nat \<Rightarrow> char \<Rightarrow> string \<Rightarrow> string" where
  "padStart n c s = replicate (n - length s) c @ s"

section \<open>The store (server/storage.ts)\<close>

text \<open>
  \<^verbatim>\<open>const [x] = await db.select()...where(...)\<close> takes the first selected row, or
  \<^verbatim>\<open>undefined\<close> when there is none.
\<close>

definition first_row :: "'a list \<Rightarrow> 'a option" where
  "first_row xs = (case xs of [] \<Rightarrow> None | x # _ \<Rightarrow> Some x)"

text \<open>
  A number sent as the parameter of a comparison with, or as the value of, an
  \<^verbatim>\<open>integer\<close> column: the database takes the integers from -2147483648 to
  2147483647 and raises an error for every other number, before the statement
  runs.  The store catches no error, so the error is what the call throws.
\<close>

definition bind_integer :: "js_number \<Rightarrow> db_error + int" where
  "bind_integer n =
     (case n of
        JsInt i \<Rightarrow>
          if - 2147483648 \<le> i \<and> i \<le> 2147483647 then Inr i
          else Inl (OutOfRange (String_of_int i))
      | JsNonInt v \<Rightarrow> Inl (InvalidInteger v))"

definition getPrograms :: "db \<Rightarrow> program list" where
  "getPrograms d = programs d"

definition getProgramById :: "db \<Rightarrow> js_number \<Rightarrow> db_error + program option" where
  "getProgramById d id' =
     (case bind_integer id' of
        Inl error \<Rightarrow> Inl error
      | Inr i \<Rightarrow> Inr (first_row (filter (\<lambda>p. int (p_id p) = i) (programs d))))"



text \<open>\<^verbatim>\<open>orderBy(desc(clients.id))\<close>: the rows sorted by id, largest first.\<close>

definition getClients :: "db \<Rightarrow> client list" where
  "getClients d = rev (sort_key c_id (clients d))"

definition getClientById :: "db \<Rightarrow> js_number \<Rightarrow> db_error + client option" where
  "getClientById d id' =
     (case bind_integer id' of
        Inl error \<Rightarrow> Inl error
      | Inr i \<Rightarrow> Inr (first_row (filter (\<lambda>c. int (c_id c) = i) (clients d))))"

definition insert_client_row :: "timestamp \<Rightarrow> db \<Rightarrow> insert_client \<Rightarrow> string
    \<Rightarrow> (db_error + client) \<times> db" where
  "insert_client_row now d clientData clientId =
     (let i = clients_seq d + 1;
          d1 = d\<lparr>clients_seq := i\<rparr>;
          row = \<lparr>c_id = i, c_clientId = clientId, c_name = ic_name clientData,
                 c_dob = ic_dob clientData, c_gender = ic_gender clientData,
                 c_phone = ic_phone clientData, c_address = ic_address clientData,
                 c_email = ic_email clientData,
                 c_emergencyContact = ic_emergencyContact clientData,
                 c_status = (case ic_status clientData of None \<Rightarrow> ''active'' | Some s \<Rightarrow> s),
                 c_createdAt = Some now\<rparr>
      in if i \<in> set (map c_id (clients d))
           then (Inl (UniqueViolation ''clients_pkey''), d1)
         else if clientId \<in> set (map c_clientId (clients d))
           then (Inl (UniqueViolation ''clients_client_id_unique''), d1)
         else (Inr row, d1\<lparr>clients := clients d @ [row]\<rparr>))"

text \<open>
  \<^verbatim>\<open>createClient\<close>: \<open>year\<close> is \<^verbatim>\<open>new Date().getFullYear()\<close> and \<open>now\<close> the database
  clock.  \<^verbatim>\<open>!clientId\<close> holds for an absent and for an empty clientId.
\<close>

definition createClient :: "nat \<Rightarrow> timestamp \<Rightarrow> db \<Rightarrow> insert_client
    \<Rightarrow> (db_error + client) \<times> db" where
  "createClient year now d client =
     (let clientId =
        (case ic_clientId client of
           Some s \<Rightarrow> if s = [] then None else Some s
         | None \<Rightarrow> None);
          clientId' =
        (case clientId of
           Some s \<Rightarrow> s
         | None \<Rightarrow>
            (let clientIdPrefix = ''HIS'';
                 year' = String_of_nat year;
                 latestClients = take 1 (rev (sort_key c_id (clients d)));
                 nextId = (case latestClients of [] \<Rightarrow> 1 | c # _ \<Rightarrow> c_id c + 1);
                 paddedId = padStart 3 (CHR ''0'') (String_of_nat nextId)
             in clientIdPrefix @ ''-'' @ year' @ ''-'' @ paddedId))
      in insert_client_row now d client clientId')"

definition getEnrollments :: "db \<Rightarrow> enrollment list" where
  "getEnrollments d = enrollments d"

text \<open>
  \<^verbatim>\<open>db.insert(enrollments).values(enrollment).returning()\<close>: the two ids are
  bound as integers (an error there leaves the database as it was); then the
  primary key, the unique constraint on (client_id, program_id) and the two
  foreign keys are checked; the column defaults fill the absent fields.  The
  store catches nothing.
\<close>

definition createEnrollment :: "db \<Rightarrow> insert_enrollment \<Rightarrow> (db_error + enrollment) \<times> db" where
  "createEnrollment d enrollment =
     (case bind_integer (ie_clientId enrollment) of
        Inl error \<Rightarrow> (Inl error, d)
      | Inr clientId \<Rightarrow>
     (case bind_integer (ie_programId enrollment) of
        Inl error \<Rightarrow> (Inl error, d)
      | Inr programId \<Rightarrow>
     (let i = enrollments_seq d + 1;
          d1 = d\<lparr>enrollments_seq := i\<rparr>;
          row = \<lparr>e_id = i, e_clientId = nat clientId,
                 e_programId = nat programId,
                 e_enrollDate = ie_enrollDate enrollment,
                 e_notes = ie_notes enrollment,
                 e_status = (case ie_status enrollment of None \<Rightarrow> ''active'' | Some s \<Rightarrow> s),
                 e_symptomSeverity = ie_symptomSeverity enrollment,
                 e_riskLevel = ie_riskLevel enrollment,
                 e_followUpRequired =
                   (case ie_followUpRequired enrollment of None \<Rightarrow> Some False | Some b \<Rightarrow> Some b)\<rparr>
      in if i \<in> set (map e_id (enrollments d))
           then (Inl (UniqueViolation ''enrollments_pkey''), d1)
         else if (clientId, programId)
                   \<in> set (map (\<lambda>e. (int (e_clientId e), int (e_programId e))) (enrollments d))
           then (Inl (UniqueViolation ''enrollments_client_id_program_id_unique''), d1)
         else if clientId \<notin> set (map (\<lambda>c. int (c_id c)) (clients d))
           then (Inl (ForeignKeyViolation ''enrollments'' ''enrollments_client_id_clients_id_fk''), d1)
         else if programId \<notin> set (map (\<lambda>p. int (p_id p)) (programs d))
           then (Inl (ForeignKeyViolation ''enrollments'' ''enrollments_program_id_programs_id_fk''), d1)
         else (Inr row, d1\<lparr>enrollments := enrollments d @ [row]\<rparr>))))"

text \<open>
  \<^verbatim>\<open>deleteEnrollment\<close>: the two ids are bound as integers; the rows of the pair
  are deleted, \<^verbatim>\<open>returning\<close> their ids; the result is whether any id came back.
\<close>

definition deleteEnrollment :: "db \<Rightarrow> js_number \<Rightarrow> js_number \<Rightarrow> (db_error + bool) \<times> db" where
  "deleteEnrollment d clientId programId =
     (case bind_integer clientId of
        Inl error \<Rightarrow> (Inl error, d)
      | Inr c \<Rightarrow>
     (case bind_integer programId of
        Inl error \<Rightarrow> (Inl error, d)
      | Inr p \<Rightarrow>
     (let result = map e_id (filter (\<lambda>e. int (e_clientId e) = c \<and> int (e_programId e) = p)
                                (enrollments d));
          d' = d\<lparr>enrollments :=
                   filter (\<lambda>e. \<not> (int (e_clientId e) = c \<and> int (e_programId e) = p))
                     (enrollments d)\<rparr>
      in (Inr (length result > 0), d'))))"

text \<open>
  \<^verbatim>\<open>searchClients\<close> sends \<^verbatim>\<open>name ILIKE '%query%' OR client_id ILIKE ... OR phone ILIKE ...\<close>
  to the database.  \<open>like_match pattern s\<close> is SQL \<^verbatim>\<open>LIKE\<close>: in the pattern \<^verbatim>\<open>%\<close>
  stands for any run of characters, \<^verbatim>\<open>_\<close> for any one character, and a backslash
  makes the character after it literal.  (A pattern that ends in a lone backslash
  is an error in SQL; the patterns built here end in \<^verbatim>\<open>%\<close>, so that branch is
  never reached and is given the value \<open>False\<close>.)  A \<open>char\<close> of the model stands
  for one character of the text.

  \<^verbatim>\<open>ILIKE\<close> is \<^verbatim>\<open>LIKE\<close> on the lower-cased pattern and the lower-cased text.  What
  lower-casing does depends on the locale of the database, so it is a parameter
  \<open>lower\<close> of the search, as the clock is of \<^verbatim>\<open>createClient\<close>.  \<open>lower_C\<close> is the
  lower-casing of the C locale, which folds the letters A to Z and nothing else.

  The database refuses a search pattern that has a NUL character.
\<close>

fun like_match :: "string \<Rightarrow> string \<Rightarrow> bool" where
  "like_match [] s = (s = [])"
| "like_match (p # ps) s =
     (if p = CHR ''%'' then
        (like_match ps s \<or> (case s of [] \<Rightarrow> False | _ # cs \<Rightarrow> like_match (p # ps) cs))
      else if p = CHR ''_'' then
        (case s of [] \<Rightarrow> False | _ # cs \<Rightarrow> like_match ps cs)
      else if p = CHR 0x5C then
        (case ps of
           [] \<Rightarrow> False
         | q # qs \<Rightarrow> (case s of [] \<Rightarrow> False | c # cs \<Rightarrow> c = q \<and> like_match qs cs))
      else
        (case s of [] \<Rightarrow> False | c # cs \<Rightarrow> c = p \<and> like_match ps cs))"

definition lower_char :: "char \<Rightarrow> char" where
  "lower_char c =
     (let n = (of_char c :: nat) in if 65 \<le> n \<and> n \<le> 90 then char_of (n + 32) else c)"

definition lower_C :: "string \<Rightarrow> string" where
  "lower_C s = map lower_char s"

definition ilike :: "(string \<Rightarrow> string) \<Rightarrow> string \<Rightarrow> string \<Rightarrow> bool" where
  "ilike lower s pattern = like_match (lower pattern) (lower s)"

definition searchClients :: "(string \<Rightarrow> string) \<Rightarrow> db \<Rightarrow> string \<Rightarrow> db_error + client list" where
  "searchClients lower d query =
     (if query = [] then Inr []
      else if CHR 0x00 \<in> set query then Inl InvalidByteSequence
      else Inr (filter (\<lambda>c. ilike lower (c_name c) (''%'' @ query @ ''%'') \<or>
                             ilike lower (c_clientId c) (''%'' @ query @ ''%'') \<or>
                             ilike lower (c_phone c) (''%'' @ query @ ''%''))
                  (clients d)))"

text \<open>
  \<^verbatim>\<open>getProgramsWithEnrollmentCount\<close>: the programs, the \<^verbatim>\<open>count(*) ... GROUP BY
  program_id\<close> rows (one per program id that occurs in \<^verbatim>\<open>enrollments\<close>), the Map
  filled from them, and the programs extended by \<^verbatim>\<open>enrollmentCountMap.get(id) || 0\<close>.

  \<^verbatim>\<open>sql<number>\<close> is a type annotation only: nothing converts the value at run
  time.  \<^verbatim>\<open>count(*)\<close> is a \<^verbatim>\<open>bigint\<close>, which the driver hands over as its decimal
  string, so the value of \<^verbatim>\<open>count\<close> is a string.  \<^verbatim>\<open>v || 0\<close> is \<open>v\<close> unless \<open>v\<close> is
  undefined, the number 0 or the empty string.
\<close>

datatype js_value = NumberValue nat | StringValue string

record program_with_enrollments = program +
  enrollmentCount :: js_value

definition group_by_programId :: "enrollment list \<Rightarrow> (nat \<times> js_value) list" where
  "group_by_programId es =
     map (\<lambda>k. (k, StringValue (String_of_nat (length (filter (\<lambda>e. e_programId e = k) es)))))
       (remdups (map e_programId es))"

definition or_zero :: "js_value option \<Rightarrow> js_value" where
  "or_zero v =
     (case v of
        None \<Rightarrow> NumberValue 0
      | Some (NumberValue n) \<Rightarrow> if n = 0 then NumberValue 0 else NumberValue n
      | Some (StringValue s) \<Rightarrow> if s = [] then NumberValue 0 else StringValue s)"

definition getProgramsWithEnrollmentCount :: "db \<Rightarrow> program_with_enrollments list" where
  "getProgramsWithEnrollmentCount d =
     (let programList = getPrograms d;
          enrollmentCounts = group_by_programId (enrollments d);
          enrollmentCountMap =
            fold (\<lambda>(programId, count) m. m(programId \<mapsto> count)) enrollmentCounts Map.empty
      in map (\<lambda>program. program.extend program
                (program_with_enrollments.fields (or_zero (enrollmentCountMap (p_id program)))))
           programList)"

section \<open>The routes (server/routes.ts)\<close>

text \<open>
  A handler takes the database and the request and gives the response and the
  database after it.  \<^verbatim>\<open>safeParse\<close> of the request body either fails with a
  message or gives data of the schema's type.  The handlers below are the bodies
  that run once the \<^verbatim>\<open>isAuthenticated\<close> middleware has let the request through.
\<close>

datatype 'a parse_result = ParseError string | ParseOk 'a

datatype body =
  Message string
  | ProgramJson program
  | ClientJson client
  | ClientsJson "client list"
  | EnrollmentJson enrollment
  | NoBody

datatype response = Response nat body

fun status_of :: "response \<Rightarrow> nat" where
  "status_of (Response s b) = s"


text \<open>\<^verbatim>\<open>if (search)\<close> holds for a present, non-empty string.\<close>

definition get_clients :: "(string \<Rightarrow> string) \<Rightarrow> db \<Rightarrow> string option \<Rightarrow> response" where
  "get_clients lower d search =
     (case search of
        Some s \<Rightarrow>
          if s \<noteq> [] then
            (case searchClients lower d s of
               Inr found \<Rightarrow> Response 200 (ClientsJson found)
             | Inl error \<Rightarrow> Response 500 (Message ''Failed to fetch clients''))
          else Response 200 (ClientsJson (getClients d))
      | None \<Rightarrow> Response 200 (ClientsJson (getClients d)))"

definition post_clients :: "nat \<Rightarrow> timestamp \<Rightarrow> db \<Rightarrow> insert_client parse_result
    \<Rightarrow> response \<times> db" where
  "post_clients year now d validatedData =
     (case validatedData of
        ParseError errorMessage \<Rightarrow> (Response 400 (Message errorMessage), d)
      | ParseOk data \<Rightarrow>
         (case createClient year now d data of
            (Inr newClient, d') \<Rightarrow> (Response 201 (ClientJson newClient), d')
          | (Inl error, d') \<Rightarrow> (Response 500 (Message ''Failed to create client''), d')))"

definition post_enrollments :: "db \<Rightarrow> insert_enrollment parse_result \<Rightarrow> response \<times> db" where
  "post_enrollments d validatedData =
     (case validatedData of
        ParseError errorMessage \<Rightarrow> (Response 400 (Message errorMessage), d)
      | ParseOk data \<Rightarrow>
         (case getClientById d (ie_clientId data) of
            Inl error \<Rightarrow> (Response 500 (Message ''Failed to create enrollment''), d)
          | Inr None \<Rightarrow> (Response 404 (Message ''Client not found''), d)
          | Inr (Some client) \<Rightarrow>
             (case getProgramById d (ie_programId data) of
                Inl error \<Rightarrow> (Response 500 (Message ''Failed to create enrollment''), d)
              | Inr None \<Rightarrow> (Response 404 (Message ''Program not found''), d)
              | Inr (Some program) \<Rightarrow>
                 (case createEnrollment d data of
                    (Inr newEnrollment, d') \<Rightarrow> (Response 201 (EnrollmentJson newEnrollment), d')
                  | (Inl error, d') \<Rightarrow>
                      if str_includes (error_message error) ''already enrolled''
                      then (Response 409 (Message (error_message error)), d')
                      else (Response 500 (Message ''Failed to create enrollment''), d')))))"

text \<open>
  The two path parameters after \<^verbatim>\<open>parseInt\<close>, which gives an integer or \<^verbatim>\<open>NaN\<close>:
  \<open>None\<close> is \<^verbatim>\<open>NaN\<close>.  An error the store throws is caught and answered with 500.
\<close>

definition delete_client_program :: "db \<Rightarrow> int option \<Rightarrow> int option \<Rightarrow> response \<times> db" where
  "delete_client_program d clientId programId =
     (case (clientId, programId) of
        (Some c, Some p) \<Rightarrow>
          (case deleteEnrollment d (JsInt c) (JsInt p) of
             (Inl error, d') \<Rightarrow> (Response 500 (Message ''Failed to delete enrollment''), d')
           | (Inr success, d') \<Rightarrow>
               if \<not> success then (Response 404 (Message ''Enrollment not found''), d')
               else (Response 204 NoBody, d'))
      | _ \<Rightarrow> (Response 400 (Message ''Invalid client ID or program ID''), d))"

text \<open>
  The routes that \<^verbatim>\<open>registerRoutes\<close> registers, in order: method, path (a segment
  is a literal or a \<^verbatim>\<open>:parameter\<close>) and whether \<^verbatim>\<open>isAuthenticated\<close> guards it.  A
  request goes to the first route whose method and path match.
\<close>

datatype http_method = GET | POST | PUT | PATCH | DELETE

datatype segment = Lit string | Param string

fun segment_matches :: "segment \<Rightarrow> string \<Rightarrow> bool" where
  "segment_matches (Lit l) s = (l = s)"
| "segment_matches (Param n) s = (s \<noteq> [])"

fun path_matches :: "segment list \<Rightarrow> string list \<Rightarrow> bool" where
  "path_matches [] [] = True"
| "path_matches (g # gs) (s # ss) = (segment_matches g s \<and> path_matches gs ss)"
| "path_matches _ _ = False"

definition registered_routes :: "(http_method \<times> segment list \<times> bool) list" where
  "registered_routes =
    [(GET, [Lit ''api'', Lit ''health''], False),
     (GET, [Lit ''api'', Lit ''programs''], True),
     (GET, [Lit ''api'', Lit ''programs'', Lit ''stats''], True),
     (GET, [Lit ''api'', Lit ''programs'', Param ''id''], False),
     (POST, [Lit ''api'', Lit ''programs''], True),
     (GET, [Lit ''api'', Lit ''clients''], False),
     (GET, [Lit ''api'', Lit ''clients'', Param ''id''], False),
     (GET, [Lit ''api'', Lit ''clients'', Param ''id'', Lit ''details''], False),
     (POST, [Lit ''api'', Lit ''clients''], True),
     (GET, [Lit ''api'', Lit ''enrollments''], False),
     (GET, [Lit ''api'', Lit ''clients'', Param ''clientId'', Lit ''enrollments''], False),
     (POST, [Lit ''api'', Lit ''enrollments''], True),
     (DELETE, [Lit ''api'', Lit ''clients'', Param ''clientId'', Lit ''programs'',
               Param ''programId''], True),
     (GET, [Lit ''api'', Lit ''clients'', Param ''clientId'', Lit ''visits''], False),
     (POST, [Lit ''api'', Lit ''visits''], True),
     (GET, [Lit ''api'', Lit ''clients'', Param ''clientId'', Lit ''notes''], False),
     (POST, [Lit ''api'', Lit ''notes''], True),
     (GET, [Lit ''api'', Lit ''stats''], False)]"

definition find_route :: "http_method \<Rightarrow> string list \<Rightarrow> (http_method \<times> segment list \<times> bool) option" where
  "find_route m path =
     List.find (\<lambda>(m', pat, auth). m' = m \<and> path_matches pat path) registered_routes"

section \<open>Notions of the specification\<close>




definition plain_query :: "string \<Rightarrow> bool" where
  "plain_query q = list_all (\<lambda>c. c \<noteq> CHR ''%'' \<and> c \<noteq> CHR ''_'' \<and> c \<noteq> CHR 0x5C) q"

definition ci_substring :: "(string \<Rightarrow> string) \<Rightarrow> string \<Rightarrow> string \<Rightarrow> bool" where
  "ci_substring lower q s = sublist (lower q) (lower s)"

definition lower_keeps_pattern :: "(string \<Rightarrow> string) \<Rightarrow> string \<Rightarrow> bool" where
  "lower_keeps_pattern lower q =
     (lower (''%'' @ q @ ''%'') = ''%'' @ lower q @ ''%'' \<and> plain_query (lower q))"

definition in_integer_range :: "int \<Rightarrow> bool" where
  "in_integer_range i = (- 2147483648 \<le> i \<and> i \<le> 2147483647)"

section \<open>Example data\<close>

text \<open>One client, one program and one enrollment, used to run the operations.\<close>

definition ex_client :: client where
  "ex_client = \<lparr>c_id = 1, c_clientId = ''HIS-2024-001'', c_name = ''John Doe'',
     c_dob = ''1990-01-01'', c_gender = ''male'', c_phone = ''0700123456'',
     c_address = ''Nairobi'', c_email = None, c_emergencyContact = ''0711000000'',
     c_status = ''active'', c_createdAt = Some 0\<rparr>"

definition ex_program :: program where
  "ex_program = \<lparr>p_id = 1, p_name = ''Tuberculosis (TB)'', p_code = ''TB'',
     p_description = ''Prevention and treatment of tuberculosis'',
     p_requiredInfo = Some [''testResults'', ''medication'']\<rparr>"

definition ex_enrollment :: enrollment where
  "ex_enrollment = \<lparr>e_id = 1, e_clientId = 1, e_programId = 1, e_enrollDate = 0,
     e_notes = None, e_status = ''active'', e_symptomSeverity = Some ''mild'',
     e_riskLevel = Some ''low'', e_followUpRequired = Some False\<rparr>"

definition ex_db :: db where
  "ex_db = \<lparr>programs = [ex_program], clients = [ex_client], enrollments = [],
     programs_seq = 1, clients_seq = 1, enrollments_seq = 0\<rparr>"

definition ex_db_enrolled :: db where
  "ex_db_enrolled = ex_db\<lparr>enrollments := [ex_enrollment], enrollments_seq := 1\<rparr>"

definition ex_request :: insert_enrollment where
  "ex_request = \<lparr>ie_clientId = JsInt 1, ie_programId = JsInt 1, ie_enrollDate = 5, ie_notes = None,
     ie_status = None, ie_symptomSeverity = Some ''catastrophic'',
     ie_riskLevel = Some ''unknown'', ie_followUpRequired = None\<rparr>"

definition ex_insert_program :: insert_program where
  "ex_insert_program = \<lparr>ip_name = ''Tuberculosis again'', ip_code = ''tb'',
     ip_description = ''lower-case code'', ip_requiredInfo = Some []\<rparr>"

definition ex_insert_client :: insert_client where
  "ex_insert_client = \<lparr>ic_clientId = None, ic_name = ''Jane Roe'', ic_dob = ''1985-05-05'',
     ic_gender = ''female'', ic_phone = ''0722000000'', ic_address = ''Kisumu'',
     ic_email = None, ic_emergencyContact = ''0733000000'', ic_status = None\<rparr>"


definition ex_new_enrollment :: enrollment where
  "ex_new_enrollment = \<lparr>e_id = 1, e_clientId = 1, e_programId = 1, e_enrollDate = 5,
     e_notes = None, e_status = ''active'', e_symptomSeverity = Some ''catastrophic'',
     e_riskLevel = Some ''unknown'', e_followUpRequired = Some False\<rparr>"

lemmas ex_defs = ex_client_def ex_program_def ex_enrollment_def ex_db_def ex_db_enrolled_def
  ex_request_def ex_insert_program_def ex_insert_client_def

section \<open>Lookups\<close>

lemma first_row_eq_None: "first_row ys = None \<longleftrightarrow> ys = []"
  by (cases ys) (simp_all add: first_row_def)

lemma first_row_None: "first_row (filter P xs) = None \<longleftrightarrow> (\<forall>x \<in> set xs. \<not> P x)"
  by (simp add: first_row_eq_None filter_empty_conv)

lemma bind_integer_in_range: "in_integer_range i \<Longrightarrow> bind_integer (JsInt i) = Inr i"
  by (simp add: bind_integer_def in_integer_range_def)

lemma bind_integer_Inr:
  "bind_integer n = Inr i \<Longrightarrow> n = JsInt i \<and> in_integer_range i"
  by (auto simp: bind_integer_def in_integer_range_def split: js_number.splits if_splits)

lemma getClientById_None:
  "in_integer_range i \<Longrightarrow>
   getClientById d (JsInt i) = Inr None \<longleftrightarrow> i \<notin> set (map (\<lambda>c. int (c_id c)) (clients d))"
  by (auto simp: getClientById_def bind_integer_in_range first_row_None)

lemma getProgramById_None:
  "in_integer_range i \<Longrightarrow>
   getProgramById d (JsInt i) = Inr None \<longleftrightarrow> i \<notin> set (map (\<lambda>p. int (p_id p)) (programs d))"
  by (auto simp: getProgramById_def bind_integer_in_range first_row_None)

lemma getClientById_Inr: "in_integer_range i \<Longrightarrow> \<exists>r. getClientById d (JsInt i) = Inr r"
  by (simp add: getClientById_def bind_integer_in_range)

lemma getProgramById_Inr: "in_integer_range i \<Longrightarrow> \<exists>r. getProgramById d (JsInt i) = Inr r"
  by (simp add: getProgramById_def bind_integer_in_range)

lemma getClientById_Some:
  "getClientById d n = Inr (Some c) \<Longrightarrow>
   \<exists>i. n = JsInt i \<and> in_integer_range i \<and> i \<in> set (map (\<lambda>c. int (c_id c)) (clients d))"
proof -
  assume a: "getClientById d n = Inr (Some c)"
  then obtain i where b: "bind_integer n = Inr i"
    by (auto simp: getClientById_def split: sum.splits)
  then have n: "n = JsInt i" and r: "in_integer_range i"
    using bind_integer_Inr by blast+
  from a n r have "getClientById d (JsInt i) \<noteq> Inr None" by simp
  with r have "i \<in> set (map (\<lambda>c. int (c_id c)) (clients d))"
    using getClientById_None [OF r, of d] by blast
  with n r show ?thesis by blast
qed

lemma getProgramById_Some:
  "getProgramById d n = Inr (Some q) \<Longrightarrow>
   \<exists>i. n = JsInt i \<and> in_integer_range i \<and> i \<in> set (map (\<lambda>p. int (p_id p)) (programs d))"
proof -
  assume a: "getProgramById d n = Inr (Some q)"
  then obtain i where b: "bind_integer n = Inr i"
    by (auto simp: getProgramById_def split: sum.splits)
  then have n: "n = JsInt i" and r: "in_integer_range i"
    using bind_integer_Inr by blast+
  from a n r have "getProgramById d (JsInt i) \<noteq> Inr None" by simp
  with r have "i \<in> set (map (\<lambda>p. int (p_id p)) (programs d))"
    using getProgramById_None [OF r, of d] by blast
  with n r show ?thesis by blast
qed


lemma ex_in_range: "in_integer_range 1" "\<not> in_integer_range 2147483648"
  by (simp_all add: in_integer_range_def)

lemma ex_bind:
  "bind_integer (JsInt 1) = Inr 1"
  "bind_integer (JsInt 7) = Inr 7"
  "bind_integer (JsInt 9) = Inr 9"
  by (simp_all add: bind_integer_def)

section \<open>Duplicate enrollments\<close>

text \<open>
  A request for a pair that is already enrolled, with client and program
  present, always ends in the route's 500 branch: the insert is rejected with a
  unique violation whose message lacks the words the 409 branch looks for.
\<close>

lemma unique_message_not_enrolled:
  "\<not> str_includes (error_message (UniqueViolation ''enrollments_pkey'')) ''already enrolled''"
  "\<not> str_includes (error_message (UniqueViolation ''enrollments_client_id_program_id_unique''))
       ''already enrolled''"
  by (simp_all add: dquote_def)

lemma post_enrollments_duplicate:
  assumes ids: "ie_clientId data = JsInt c" "ie_programId data = JsInt p"
    and rng: "in_integer_range c" "in_integer_range p"
    and dup: "(c, p) \<in> set (map (\<lambda>e. (int (e_clientId e), int (e_programId e))) (enrollments d))"
    and c: "c \<in> set (map (\<lambda>x. int (c_id x)) (clients d))"
    and p: "p \<in> set (map (\<lambda>x. int (p_id x)) (programs d))"
  shows "post_enrollments d (ParseOk data) =
           (Response 500 (Message ''Failed to create enrollment''),
            d\<lparr>enrollments_seq := enrollments_seq d + 1\<rparr>)"
proof -
  obtain r where "getClientById d (JsInt c) = Inr r"
    using getClientById_Inr [OF rng(1)] by blast
  with c obtain cl where cl: "getClientById d (ie_clientId data) = Inr (Some cl)"
    using getClientById_None [OF rng(1), of d] ids(1) by (cases r) auto
  obtain r' where "getProgramById d (JsInt p) = Inr r'"
    using getProgramById_Inr [OF rng(2)] by blast
  with p obtain pr where pr: "getProgramById d (ie_programId data) = Inr (Some pr)"
    using getProgramById_None [OF rng(2), of d] ids(2) by (cases r') auto
  have "createEnrollment d data =
          (Inl (UniqueViolation ''enrollments_pkey''), d\<lparr>enrollments_seq := enrollments_seq d + 1\<rparr>) \<or>
        createEnrollment d data =
          (Inl (UniqueViolation ''enrollments_client_id_program_id_unique''),
           d\<lparr>enrollments_seq := enrollments_seq d + 1\<rparr>)"
    using dup ids rng by (simp add: createEnrollment_def Let_def bind_integer_in_range)
  then show ?thesis
    using cl pr unique_message_not_enrolled
    by (auto simp: post_enrollments_def)
qed

text \<open>
  C1.  The claim: a createEnrollment call for a (clientId, programId) pair that is
  already enrolled fails with a conflict error "client already enrolled in
  program", translated by the store and answered with 409.  The code: the store
  lets the database's unique violation through as it is; its message does not
  contain "already enrolled", which is what the route's 409 branch looks for, so
  the request is answered with 500 "Failed to create enrollment".  The existing
  row is untouched (only the sequence has moved).
\<close>

theorem createEnrollment_duplicate_not_translated:
  "fst (createEnrollment ex_db_enrolled ex_request) =
     Inl (UniqueViolation ''enrollments_client_id_program_id_unique'') \<and>
   \<not> str_includes (error_message (UniqueViolation ''enrollments_client_id_program_id_unique''))
        ''already enrolled'' \<and>
   post_enrollments ex_db_enrolled (ParseOk ex_request) =
     (Response 500 (Message ''Failed to create enrollment''),
      ex_db_enrolled\<lparr>enrollments_seq := 2\<rparr>)"
  by (simp add: ex_defs createEnrollment_def post_enrollments_def getClientById_def
      getProgramById_def first_row_def Let_def dquote_def ex_bind)

section \<open>Deleting programs and clients\<close>

text \<open>
  C3.  The claim: deleting a program (or a client) that enrollments refer to
  fails with a conflict error.  The code: the store has no operation that
  deletes a program or a client, and no registered route matches
  DELETE /api/programs/:id or DELETE /api/clients/:id, the requests the client
  pages send.
\<close>

theorem delete_program_route_missing:
  "find_route DELETE [''api'', ''programs'', ''1''] = None \<and>
   find_route DELETE [''api'', ''clients'', ''1''] = None"
  by (simp add: find_route_def registered_routes_def)

section \<open>Enrollment counts per program\<close>

lemma fold_count_map:
  "fold (\<lambda>(k, c) m. m(k \<mapsto> c)) (map (\<lambda>k. (k, f k)) ks) m0 k' =
     (if k' \<in> set ks then Some (f k') else m0 k')"
  by (induction ks arbitrary: m0) auto

lemma String_of_nat_not_empty: "String_of_nat n \<noteq> []"
  by (subst String_of_nat.simps) simp

lemma or_zero_count:
  "or_zero (fold (\<lambda>(k, c) m. m(k \<mapsto> c)) (group_by_programId es) Map.empty i) =
     (let n = length (filter (\<lambda>e. e_programId e = i) es)
      in if n = 0 then NumberValue 0 else StringValue (String_of_nat n))"
proof (cases "i \<in> set (map e_programId es)")
  case True
  then have "filter (\<lambda>e. e_programId e = i) es \<noteq> []"
    by (auto simp: filter_empty_conv)
  with True show ?thesis
    by (simp add: group_by_programId_def fold_count_map or_zero_def String_of_nat_not_empty)
next
  case False
  then have "filter (\<lambda>e. e_programId e = i) es = []"
    by (auto simp: filter_empty_conv)
  with False show ?thesis
    by (simp add: group_by_programId_def fold_count_map or_zero_def)
qed

text \<open>
  What getProgramsWithEnrollmentCount returns, for every database: one entry
  per program, in the order of the programs; the entry of a program without
  enrollments carries the number 0, the entry of a program with n > 0
  enrollments carries the decimal string of n.
\<close>

lemma getProgramsWithEnrollmentCount_entries:
  "map program.truncate (getProgramsWithEnrollmentCount d) = programs d \<and>
   map enrollmentCount (getProgramsWithEnrollmentCount d) =
     map (\<lambda>p. let n = length (filter (\<lambda>e. e_programId e = p_id p) (enrollments d))
               in if n = 0 then NumberValue 0 else StringValue (String_of_nat n)) (programs d)"
  by (simp add: getProgramsWithEnrollmentCount_def getPrograms_def or_zero_count
      program.truncate_def program.extend_def program_with_enrollments.fields_def comp_def map_idI)

lemma ex_one: "String_of_nat (Suc 0) = ''1''"
  by code_simp

text \<open>
  C6.  The claim: each entry's enrollmentCount equals the number of enrollment
  rows of the program.  The code: for the program with one enrollment the
  entry carries the string "1", not the number 1 (the declared type of
  enrollmentCount is number); the program without enrollments carries the
  number 0.  Every program does appear, once.
\<close>

theorem getProgramsWithEnrollmentCount_count_is_string:
  "map enrollmentCount (getProgramsWithEnrollmentCount ex_db_enrolled) = [StringValue ''1''] \<and>
   map enrollmentCount (getProgramsWithEnrollmentCount ex_db) = [NumberValue 0] \<and>
   map program.truncate (getProgramsWithEnrollmentCount ex_db_enrolled) = [ex_program]"
  by (simp add: getProgramsWithEnrollmentCount_entries ex_defs ex_one)

section \<open>Unenrolling\<close>

lemma digit_char_values:
  "digit_char 0 = CHR ''0''" "digit_char (Suc 0) = CHR ''1''" "digit_char 2 = CHR ''2''"
  "digit_char 3 = CHR ''3''" "digit_char 4 = CHR ''4''" "digit_char 5 = CHR ''5''"
  "digit_char 6 = CHR ''6''" "digit_char 7 = CHR ''7''" "digit_char 8 = CHR ''8''"
  "digit_char 9 = CHR ''9''"
  by code_simp+

lemma ex_big: "String_of_int 2147483648 = ''2147483648''"
  by (simp add: String_of_int_def String_of_nat.simps digit_char_values)

text \<open>
  C7, the claim as stated fails: for a client id that the database's integer
  type does not hold, no enrollment exists, yet deleteEnrollment does not
  return false: the database refuses the parameter, the store throws, and
  DELETE /api/clients/2147483648/programs/1 is answered with 500.
\<close>

theorem deleteEnrollment_out_of_range_counterexample:
  "fst (deleteEnrollment ex_db (JsInt 2147483648) (JsInt 1)) = Inl (OutOfRange ''2147483648'') \<and>
   fst (delete_client_program ex_db (Some 2147483648) (Some 1)) =
     Response 500 (Message ''Failed to delete enrollment'')"
  by (simp add: deleteEnrollment_def delete_client_program_def bind_integer_def ex_big)

text \<open>
  C7, amended.  For a client id and a program id within the range of the
  database's integer type, deleteEnrollment returns true exactly when a row of
  the pair existed, leaves exactly the rows of other pairs, and returns false
  when called again for the same pair; it does not throw.  The route answers
  204 on true and 404 "Enrollment not found" on false, and leaves the database
  as deleteEnrollment left it.
\<close>

theorem deleteEnrollment_found_flag:
  "in_integer_range c \<and> in_integer_range p \<longrightarrow>
   fst (deleteEnrollment d (JsInt c) (JsInt p)) =
     Inr ((c, p) \<in> set (map (\<lambda>e. (int (e_clientId e), int (e_programId e))) (enrollments d))) \<and>
   enrollments (snd (deleteEnrollment d (JsInt c) (JsInt p))) =
     filter (\<lambda>e. \<not> (int (e_clientId e) = c \<and> int (e_programId e) = p)) (enrollments d) \<and>
   fst (deleteEnrollment (snd (deleteEnrollment d (JsInt c) (JsInt p))) (JsInt c) (JsInt p)) =
     Inr False \<and>
   delete_client_program d (Some c) (Some p) =
     (if (c, p) \<in> set (map (\<lambda>e. (int (e_clientId e), int (e_programId e))) (enrollments d))
      then Response 204 NoBody
      else Response 404 (Message ''Enrollment not found''),
      snd (deleteEnrollment d (JsInt c) (JsInt p)))"
  by (auto simp: deleteEnrollment_def delete_client_program_def Let_def filter_empty_conv
      bind_integer_in_range)

theorem deleteEnrollment_found_flag_witness:
  "fst (deleteEnrollment ex_db_enrolled (JsInt 1) (JsInt 1)) = Inr True \<and>
   enrollments (snd (deleteEnrollment ex_db_enrolled (JsInt 1) (JsInt 1))) = [] \<and>
   fst (deleteEnrollment (snd (deleteEnrollment ex_db_enrolled (JsInt 1) (JsInt 1)))
          (JsInt 1) (JsInt 1)) = Inr False \<and>
   fst (delete_client_program ex_db_enrolled (Some 1) (Some 1)) = Response 204 NoBody \<and>
   fst (delete_client_program ex_db (Some 1) (Some 1)) =
     Response 404 (Message ''Enrollment not found'')"
  using deleteEnrollment_found_flag [of 1 1 ex_db_enrolled]
    deleteEnrollment_found_flag [of 1 1 ex_db]
  by (simp add: ex_defs ex_in_range)

section \<open>Enrolling a missing client or program\<close>

text \<open>
  C8, the claim as stated fails: the route's schema takes every number for
  clientId and programId.  A client id outside the range of the database's
  integer type, or a program id with a fraction, resolves to no row, yet the
  request is not answered 404: the lookup throws and the answer is 500.
  Nothing is inserted.
\<close>

theorem post_enrollments_out_of_range_counterexample:
  "post_enrollments ex_db (ParseOk (ex_request\<lparr>ie_clientId := JsInt 2147483648\<rparr>)) =
      (Response 500 (Message ''Failed to create enrollment''), ex_db) \<and>
   post_enrollments ex_db (ParseOk (ex_request\<lparr>ie_programId := JsNonInt ''1.5''\<rparr>)) =
      (Response 500 (Message ''Failed to create enrollment''), ex_db)"
  by (simp add: post_enrollments_def getClientById_def getProgramById_def bind_integer_def
      first_row_def ex_defs)

text \<open>
  C8, amended.  POST /api/enrollments with a well-formed body whose client id
  and program id are integers within the range of the database's integer type
  looks the client and then the program up before it inserts: a client id that
  resolves to no row is answered 404 "Client not found", a program id that
  resolves to no row 404 "Program not found", and in both cases the database is
  unchanged.  A 201 is only given when both ids are such integers and both rows
  exist.
\<close>

theorem post_enrollments_not_found:
  "(ie_clientId data = JsInt c \<and> in_integer_range c \<and>
    c \<notin> set (map (\<lambda>x. int (c_id x)) (clients d)) \<longrightarrow>
      post_enrollments d (ParseOk data) = (Response 404 (Message ''Client not found''), d)) \<and>
   (ie_clientId data = JsInt c \<and> in_integer_range c \<and>
    c \<in> set (map (\<lambda>x. int (c_id x)) (clients d)) \<and>
    ie_programId data = JsInt p \<and> in_integer_range p \<and>
    p \<notin> set (map (\<lambda>x. int (p_id x)) (programs d)) \<longrightarrow>
      post_enrollments d (ParseOk data) = (Response 404 (Message ''Program not found''), d)) \<and>
   (status_of (fst (post_enrollments d (ParseOk data))) = 201 \<longrightarrow>
      (\<exists>c' p'. ie_clientId data = JsInt c' \<and> ie_programId data = JsInt p' \<and>
         in_integer_range c' \<and> in_integer_range p' \<and>
         c' \<in> set (map (\<lambda>x. int (c_id x)) (clients d)) \<and>
         p' \<in> set (map (\<lambda>x. int (p_id x)) (programs d))))"
proof (intro conjI impI)
  assume a: "ie_clientId data = JsInt c \<and> in_integer_range c \<and>
    c \<notin> set (map (\<lambda>x. int (c_id x)) (clients d))"
  then have "getClientById d (ie_clientId data) = Inr None"
    using getClientById_None [of c d] by simp
  then show "post_enrollments d (ParseOk data) = (Response 404 (Message ''Client not found''), d)"
    by (simp add: post_enrollments_def)
next
  assume a: "ie_clientId data = JsInt c \<and> in_integer_range c \<and>
    c \<in> set (map (\<lambda>x. int (c_id x)) (clients d)) \<and>
    ie_programId data = JsInt p \<and> in_integer_range p \<and>
    p \<notin> set (map (\<lambda>x. int (p_id x)) (programs d))"
  then obtain r where r: "getClientById d (ie_clientId data) = Inr r"
    using getClientById_Inr [of c d] by auto
  with a have "r \<noteq> None"
    using getClientById_None [of c d] by auto
  then obtain cl where cl: "getClientById d (ie_clientId data) = Inr (Some cl)"
    using r by (cases r) auto
  from a have "getProgramById d (ie_programId data) = Inr None"
    using getProgramById_None [of p d] by simp
  with cl show "post_enrollments d (ParseOk data) =
      (Response 404 (Message ''Program not found''), d)"
    by (simp add: post_enrollments_def)
next
  assume ok: "status_of (fst (post_enrollments d (ParseOk data))) = 201"
  then obtain cl where cl: "getClientById d (ie_clientId data) = Inr (Some cl)"
    by (auto simp: post_enrollments_def split: sum.splits option.splits)
  with ok obtain pr where pr: "getProgramById d (ie_programId data) = Inr (Some pr)"
    by (auto simp: post_enrollments_def split: sum.splits option.splits)
  from getClientById_Some [OF cl] getProgramById_Some [OF pr]
  show "\<exists>c' p'. ie_clientId data = JsInt c' \<and> ie_programId data = JsInt p' \<and>
         in_integer_range c' \<and> in_integer_range p' \<and>
         c' \<in> set (map (\<lambda>x. int (c_id x)) (clients d)) \<and>
         p' \<in> set (map (\<lambda>x. int (p_id x)) (programs d))"
    by blast
qed

theorem post_enrollments_not_found_witness:
  "post_enrollments ex_db (ParseOk (ex_request\<lparr>ie_clientId := JsInt 7\<rparr>)) =
      (Response 404 (Message ''Client not found''), ex_db) \<and>
   post_enrollments ex_db (ParseOk (ex_request\<lparr>ie_programId := JsInt 9\<rparr>)) =
      (Response 404 (Message ''Program not found''), ex_db)"
  using post_enrollments_not_found [of "ex_request\<lparr>ie_clientId := JsInt 7\<rparr>" 7 ex_db 1]
    post_enrollments_not_found [of "ex_request\<lparr>ie_programId := JsInt 9\<rparr>" 1 ex_db 9]
  by (simp add: ex_defs in_integer_range_def)

section \<open>Listing clients with an empty search\<close>

text \<open>
  C10.  GET /api/clients with \<^verbatim>\<open>search=\<close> (present, empty) gives the same answer
  as without the parameter: 200 and getClients, which is every client row,
  sorted by id with the largest first.  searchClients, whose guard would give
  the empty list, is not called.
\<close>

theorem get_clients_empty_search_lists_all:
  "get_clients lower d (Some []) = Response 200 (ClientsJson (getClients d)) \<and>
   get_clients lower d (Some []) = get_clients lower d None \<and>
   mset (getClients d) = mset (clients d) \<and>
   sorted (rev (map c_id (getClients d))) \<and>
   searchClients lower d [] = Inr []"
  by (simp add: get_clients_def getClients_def searchClients_def rev_map)

theorem get_clients_empty_search_lists_all_witness:
  "get_clients lower_C ex_db (Some []) = Response 200 (ClientsJson [ex_client]) \<and>
   searchClients lower_C ex_db [] = Inr []"
  using get_clients_empty_search_lists_all [of lower_C ex_db]
  by (simp add: ex_defs getClients_def)

section \<open>Program codes\<close>




section \<open>Assessment fields of an enrollment\<close>

text \<open>
  C9, the claim as stated fails: the route's schema takes any string for
  symptomSeverity and riskLevel.  A request with symptomSeverity "catastrophic"
  and riskLevel "unknown" is answered 201 and the row is stored with them.
\<close>

theorem post_enrollments_free_text_counterexample:
  "status_of (fst (post_enrollments ex_db (ParseOk ex_request))) = 201 \<and>
   map e_symptomSeverity (enrollments (snd (post_enrollments ex_db (ParseOk ex_request))))
     = [Some ''catastrophic''] \<and>
   map e_riskLevel (enrollments (snd (post_enrollments ex_db (ParseOk ex_request))))
     = [Some ''unknown'']"
  by (simp add: ex_defs post_enrollments_def createEnrollment_def getClientById_def
      getProgramById_def first_row_def Let_def ex_bind)

text \<open>
  C9, amended.  A row stored through POST /api/enrollments carries the
  request's symptomSeverity and riskLevel unchanged (any string, or null when
  absent); its followUpRequired is a boolean, false when the request gives
  none; its status is the request's, and "active" when the request gives none.
\<close>

theorem post_enrollments_stored_fields:
  "post_enrollments d (ParseOk data) = (Response 201 (EnrollmentJson row), d') \<longrightarrow>
     enrollments d' = enrollments d @ [row] \<and>
     e_symptomSeverity row = ie_symptomSeverity data \<and>
     e_riskLevel row = ie_riskLevel data \<and>
     e_followUpRequired row =
       Some (case ie_followUpRequired data of None \<Rightarrow> False | Some b \<Rightarrow> b) \<and>
     e_status row = (case ie_status data of None \<Rightarrow> ''active'' | Some s \<Rightarrow> s)"
proof
  assume ok: "post_enrollments d (ParseOk data) = (Response 201 (EnrollmentJson row), d')"
  then have c: "createEnrollment d data = (Inr row, d')"
    by (auto simp: post_enrollments_def split: option.splits prod.splits sum.splits if_splits)
  then show "enrollments d' = enrollments d @ [row] \<and>
     e_symptomSeverity row = ie_symptomSeverity data \<and>
     e_riskLevel row = ie_riskLevel data \<and>
     e_followUpRequired row =
       Some (case ie_followUpRequired data of None \<Rightarrow> False | Some b \<Rightarrow> b) \<and>
     e_status row = (case ie_status data of None \<Rightarrow> ''active'' | Some s \<Rightarrow> s)"
    by (auto simp: createEnrollment_def Let_def split: if_splits option.splits sum.splits)
qed

theorem post_enrollments_stored_fields_witness:
  "post_enrollments ex_db (ParseOk ex_request) =
     (Response 201 (EnrollmentJson ex_new_enrollment),
      snd (post_enrollments ex_db (ParseOk ex_request))) \<and>
   e_status ex_new_enrollment = ''active'' \<and>
   e_followUpRequired ex_new_enrollment = Some False \<and>
   enrollments (snd (post_enrollments ex_db (ParseOk ex_request))) = [ex_new_enrollment]"
  using post_enrollments_stored_fields [of ex_db ex_request ex_new_enrollment
      "snd (post_enrollments ex_db (ParseOk ex_request))"]
  by (simp add: ex_defs ex_new_enrollment_def post_enrollments_def createEnrollment_def
      getClientById_def getProgramById_def first_row_def Let_def ex_bind)

section \<open>Generated client ids\<close>

















section \<open>Searching clients\<close>

lemma like_match_percent: "like_match ''%'' s"
  by (induction s) simp_all

lemma like_match_plain_prefix:
  "plain_query p \<Longrightarrow> like_match (p @ ''%'') s = prefix p s"
proof (induction p arbitrary: s)
  case Nil
  then show ?case using like_match_percent by simp
next
  case (Cons a p)
  then have a: "a \<noteq> CHR ''%''" "a \<noteq> CHR ''_''" "a \<noteq> CHR 0x5C" and p: "plain_query p"
    by (simp_all add: plain_query_def)
  show ?case
  proof (cases s)
    case Nil
    with a show ?thesis by simp
  next
    case (Cons c cs)
    with a Cons.IH [OF p, of cs] show ?thesis by auto
  qed
qed

lemma like_match_plain_sublist:
  "plain_query p \<Longrightarrow> like_match (CHR ''%'' # p @ ''%'') s = sublist p s"
proof (induction s)
  case Nil
  then show ?case by (simp add: like_match_plain_prefix)
next
  case (Cons c cs)
  then show ?case
    by (simp add: like_match_plain_prefix sublist_Cons_right)
qed

lemma lower_char_plain:
  assumes c: "c \<noteq> CHR ''%'' \<and> c \<noteq> CHR ''_'' \<and> c \<noteq> CHR 0x5C"
  shows "lower_char c \<noteq> CHR ''%'' \<and> lower_char c \<noteq> CHR ''_'' \<and> lower_char c \<noteq> CHR 0x5C"
proof (cases "65 \<le> (of_char c :: nat) \<and> (of_char c :: nat) \<le> 90")
  case False
  with c show ?thesis by (auto simp: lower_char_def Let_def)
next
  case True
  let ?u = "char_of (of_char c + (32::nat))"
  have "(of_char ?u :: nat) = (of_char c + 32) mod 256"
    by (simp only: of_char_of)
  with True have v: "97 \<le> (of_char ?u :: nat)" by simp
  have ne: "?u \<noteq> k" if k: "(of_char k :: nat) < 97" for k
  proof
    assume e: "?u = k"
    have "(of_char ?u :: nat) = of_char k" by (simp only: e)
    with v k show False by linarith
  qed
  have "?u \<noteq> CHR ''%''" "?u \<noteq> CHR ''_''" "?u \<noteq> CHR 0x5C"
    by (rule ne, simp)+
  with True show ?thesis by (simp add: lower_char_def Let_def)
qed

lemma plain_query_lower_C: "plain_query q \<Longrightarrow> plain_query (lower_C q)"
  by (induction q) (simp_all add: plain_query_def lower_C_def lower_char_plain)

lemma lower_percent: "lower_char CHR ''%'' = CHR ''%''"
  by (simp add: lower_char_def)

lemma lower_C_keeps_pattern: "plain_query q \<Longrightarrow> lower_keeps_pattern lower_C q"
  by (simp add: lower_keeps_pattern_def plain_query_lower_C)
    (simp add: lower_C_def lower_percent)

lemma ilike_plain:
  assumes "lower_keeps_pattern lower q"
  shows "ilike lower s (CHR ''%'' # q @ ''%'') = ci_substring lower q s"
proof -
  from assms have l: "lower (CHR ''%'' # q @ ''%'') = CHR ''%'' # lower q @ ''%''"
    and p: "plain_query (lower q)"
    by (simp_all add: lower_keeps_pattern_def)
  show ?thesis
    unfolding ilike_def ci_substring_def l
    by (rule like_match_plain_sublist [OF p])
qed

text \<open>
  C5, the claim as stated fails.  A blank query is not empty, so the guard
  does not stop it: the query of one space returns John Doe, whose name has a
  space, where the claim gives the empty result.  And the query \<^verbatim>\<open>j_hn\<close> returns
  John Doe although it is a substring of none of his fields.  (The lower-casing
  is that of the C locale; the example has no letter outside A to Z.)
\<close>

theorem searchClients_blank_wildcard_counterexample:
  "searchClients lower_C ex_db '' '' = Inr [ex_client] \<and>
   searchClients lower_C ex_db ''j_hn'' = Inr [ex_client] \<and>
   \<not> ci_substring lower_C ''j_hn'' (c_name ex_client) \<and>
   \<not> ci_substring lower_C ''j_hn'' (c_clientId ex_client) \<and>
   \<not> ci_substring lower_C ''j_hn'' (c_phone ex_client)"
  by code_simp

text \<open>
  C5, amended.  searchClients returns the empty list for the empty query.  For
  a non-empty query that has none of the characters \<^verbatim>\<open>%\<close>, \<^verbatim>\<open>_\<close> and backslash and
  no NUL character (a blank query is one of these) it returns exactly the
  clients, in table order, for which the query is a case-insensitive substring
  of the name, the clientId or the phone.  Case is folded by the lower-casing
  of the database, whatever its locale, as long as it changes letters only.
\<close>

theorem searchClients_plain_query:
  "searchClients lower d [] = Inr [] \<and>
   (query \<noteq> [] \<and> CHR 0x00 \<notin> set query \<and> plain_query query \<and>
    lower_keeps_pattern lower query \<longrightarrow>
      searchClients lower d query =
        Inr (filter (\<lambda>c. ci_substring lower query (c_name c) \<or>
                          ci_substring lower query (c_clientId c) \<or>
                          ci_substring lower query (c_phone c)) (clients d)))"
  by (simp add: searchClients_def ilike_plain)

theorem searchClients_plain_query_witness:
  "plain_query ''jo'' \<and> lower_keeps_pattern lower_C ''jo'' \<and>
   searchClients lower_C ex_db ''jo'' = Inr [ex_client] \<and>
   plain_query ''zz'' \<and> lower_keeps_pattern lower_C ''zz'' \<and>
   searchClients lower_C ex_db ''zz'' = Inr [] \<and>
   searchClients lower_C ex_db [] = Inr []"
proof -
  have p: "plain_query ''jo''" "plain_query ''zz''"
    by (simp_all add: plain_query_def)
  then have k: "lower_keeps_pattern lower_C ''jo''" "lower_keeps_pattern lower_C ''zz''"
    by (simp_all only: lower_C_keeps_pattern)
  have f: "filter (\<lambda>c. ci_substring lower_C ''jo'' (c_name c) \<or>
                     ci_substring lower_C ''jo'' (c_clientId c) \<or>
                     ci_substring lower_C ''jo'' (c_phone c)) (clients ex_db) = [ex_client]"
    by code_simp
  have g: "filter (\<lambda>c. ci_substring lower_C ''zz'' (c_name c) \<or>
                     ci_substring lower_C ''zz'' (c_clientId c) \<or>
                     ci_substring lower_C ''zz'' (c_phone c)) (clients ex_db) = []"
    by code_simp
  from p k f g searchClients_plain_query [of lower_C ex_db "''jo''"]
    searchClients_plain_query [of lower_C ex_db "''zz''"]
  show ?thesis by simp
qed

end
